theory Spec2Isabelle
  imports Complex_Main
begin

section \<open>The slang interpreter of \<open>src/nslang.js\<close>\<close>

text \<open>
  The program is a JavaScript stack machine: tagged values, an array used as a stack,
  a plain object used as the environment, and a \<open>for\<close> loop that walks a program
  array. The embedding keeps what the JavaScript does where it differs from a typed
  reading of it:
  \<^item> reading a missing property or an index outside an array gives the value
    \<open>undefined\<close>; it is the constructor \<open>Undefined\<close> of \<open>jsval\<close>, never an error;
  \<^item> reading a field of \<open>undefined\<close>, or calling something that is not a function,
    throws a \<open>TypeError\<close>; functions that can throw return a \<open>completion\<close>;
  \<^item> arrays and objects are mutated in place; the model passes the contents along, and
    an abrupt completion carries the contents at the moment of the throw;
  \<^item> numbers are the host's doubles. Their type \<open>'n\<close> and their arithmetic are
    parameters (the record \<open>ops\<close>), so that nothing is assumed about rounding,
    infinities or NaN.
  What is left out. The environment is modelled by its own properties only: the names
  every JavaScript object inherits from \<open>Object.prototype\<close> (\<open>toString\<close>,
  \<open>constructor\<close>, ...) are outside the model. The environment, the program and the
  stack are three distinct objects, so that a \<open>push\<close> on the stack is not a write to the
  program. A host function returns an array or throws; it does not run forever.
  \<open>pc\<close> and the index given to \<open>topi\<close> are integers. The console helpers \<open>show\<close> and
  \<open>show_item\<close> are not modelled.
\<close>

subsection \<open>Values (lines 69-72)\<close>

text \<open>
  What a \<open>v\<close> field can hold: a number, a string, or a host function. A function is
  named by an identifier of type \<open>'p\<close>; the host's table \<open>h_call\<close> says what it does.
\<close>

datatype ('n, 'p) payload = PNum 'n | PStr string | PFun 'p

record ('n, 'p) "value" =
  t :: string
  v :: "('n, 'p) payload"

definition number :: "('n, 'p) payload \<Rightarrow> ('n, 'p) value" where
  "number x = \<lparr>t = ''number'', v = x\<rparr>"

definition string :: "('n, 'p) payload \<Rightarrow> ('n, 'p) value" where
  "string x = \<lparr>t = ''string'', v = x\<rparr>"

definition word :: "('n, 'p) payload \<Rightarrow> ('n, 'p) value" where
  "word x = \<lparr>t = ''word'', v = x\<rparr>"

definition prim :: "('n, 'p) payload \<Rightarrow> ('n, 'p) value" where
  "prim fn = \<lparr>t = ''prim'', v = fn\<rparr>"

text \<open>A JavaScript variable of this program holds a tagged value or \<open>undefined\<close>.\<close>

datatype ('n, 'p) jsval = Undefined | Obj "('n, 'p) value"

type_synonym ('n, 'p) env = "string \<rightharpoonup> ('n, 'p) value"
type_synonym ('n, 'p) stack = "('n, 'p) jsval list"
type_synonym ('n, 'p) program = "('n, 'p) value list"

subsection \<open>Exceptions and the host\<close>

datatype exn = TypeError | HostError string

text \<open>
  \<open>Normal a\<close>: the call returned, the state is \<open>a\<close>. \<open>Abrupt x a\<close>: it threw \<open>x\<close>,
  and \<open>a\<close> is the state the throw left behind.
\<close>

datatype 'a completion = Normal 'a | Abrupt exn 'a


text \<open>
  The host language has two parts. Its operators: the arithmetic of its numbers, and its
  coercions \<open>ToNumber\<close> and \<open>ToString\<close> on what is not already a number or a string.
\<close>

record ('n, 'p) ops =
  o_add :: "'n \<Rightarrow> 'n \<Rightarrow> 'n"
  o_sub :: "'n \<Rightarrow> 'n \<Rightarrow> 'n"
  o_mul :: "'n \<Rightarrow> 'n \<Rightarrow> 'n"
  o_div :: "'n \<Rightarrow> 'n \<Rightarrow> 'n"
  o_sqrt :: "'n \<Rightarrow> 'n"
  o_to_number :: "('n, 'p) payload \<Rightarrow> 'n"
  o_to_string :: "('n, 'p) payload \<Rightarrow> string"

text \<open>
  And its function objects. A function object receives the stack; the closures of
  \<open>load_stdlib\<close> are created with \<open>env\<close> in scope, so a function is given the
  environment too and returns both.
\<close>

record ('n, 'p) host =
  h_ops :: "('n, 'p) ops"
  h_call :: "'p \<Rightarrow> ('n, 'p) env \<Rightarrow> ('n, 'p) stack
               \<Rightarrow> (('n, 'p) env \<times> ('n, 'p) stack) completion"

definition ToNumber :: "('n, 'p) ops \<Rightarrow> ('n, 'p) payload \<Rightarrow> 'n" where
  "ToNumber ops a = (case a of PNum x \<Rightarrow> x | _ \<Rightarrow> o_to_number ops a)"

definition ToString :: "('n, 'p) ops \<Rightarrow> ('n, 'p) payload \<Rightarrow> string" where
  "ToString ops a = (case a of PStr s \<Rightarrow> s | _ \<Rightarrow> o_to_string ops a)"

text \<open>
  The operators used by the standard library. \<open>+\<close> adds two numbers and concatenates
  otherwise (a string or a function is involved); \<open>-\<close>, \<open>*\<close>, \<open>/\<close> and \<open>Math.sqrt\<close>
  convert their operands to numbers.
\<close>

definition js_plus :: "('n, 'p) ops \<Rightarrow> ('n, 'p) payload \<Rightarrow> ('n, 'p) payload \<Rightarrow> ('n, 'p) payload" where
  "js_plus ops a b =
     (case (a, b) of
        (PNum x, PNum y) \<Rightarrow> PNum (o_add ops x y)
      | _ \<Rightarrow> PStr (ToString ops a @ ToString ops b))"

definition js_minus :: "('n, 'p) ops \<Rightarrow> ('n, 'p) payload \<Rightarrow> ('n, 'p) payload \<Rightarrow> ('n, 'p) payload" where
  "js_minus ops a b = PNum (o_sub ops (ToNumber ops a) (ToNumber ops b))"

definition js_times :: "('n, 'p) ops \<Rightarrow> ('n, 'p) payload \<Rightarrow> ('n, 'p) payload \<Rightarrow> ('n, 'p) payload" where
  "js_times ops a b = PNum (o_mul ops (ToNumber ops a) (ToNumber ops b))"

definition js_divide :: "('n, 'p) ops \<Rightarrow> ('n, 'p) payload \<Rightarrow> ('n, 'p) payload \<Rightarrow> ('n, 'p) payload" where
  "js_divide ops a b = PNum (o_div ops (ToNumber ops a) (ToNumber ops b))"

definition Math_sqrt :: "('n, 'p) ops \<Rightarrow> ('n, 'p) payload \<Rightarrow> ('n, 'p) payload" where
  "Math_sqrt ops a = PNum (o_sqrt ops (ToNumber ops a))"

subsection \<open>Environment (lines 119-130)\<close>

definition mk_env :: "('n, 'p) env" where
  "mk_env = Map.empty"

text \<open>\<open>env[word.v]\<close>: the key is the payload as a property name.\<close>

definition lookup :: "('n, 'p) ops \<Rightarrow> ('n, 'p) env \<Rightarrow> ('n, 'p) value \<Rightarrow> ('n, 'p) jsval" where
  "lookup ops env w = (case env (ToString ops (v w)) of None \<Rightarrow> Undefined | Some x \<Rightarrow> Obj x)"

text \<open>\<open>define\<close> (a keyword of Isabelle, hence the suffix): \<open>env[key] = value; return env\<close>.\<close>

definition define_env :: "('n, 'p) env \<Rightarrow> string \<Rightarrow> ('n, 'p) value \<Rightarrow> ('n, 'p) env" where
  "define_env env key val = env(key \<mapsto> val)"

subsection \<open>Stack (lines 139-157)\<close>

text \<open>The array is the list, the top of the stack its last element.\<close>

definition push :: "('n, 'p) stack \<Rightarrow> ('n, 'p) jsval \<Rightarrow> ('n, 'p) stack" where
  "push stack item = stack @ [item]"

text \<open>\<open>Array.prototype.pop\<close> returns \<open>undefined\<close> on an empty array and leaves it empty.\<close>

definition pop :: "('n, 'p) stack \<Rightarrow> ('n, 'p) jsval \<times> ('n, 'p) stack" where
  "pop stack = (if stack = [] then (Undefined, []) else (last stack, butlast stack))"

text \<open>\<open>stack[i]\<close> for a number \<open>i\<close> that is an integer.\<close>

definition elem :: "('n, 'p) stack \<Rightarrow> int \<Rightarrow> ('n, 'p) jsval" where
  "elem stack i = (if 0 \<le> i \<and> i < int (length stack) then stack ! nat i else Undefined)"

definition topitem :: "('n, 'p) stack \<Rightarrow> ('n, 'p) jsval" where
  "topitem stack = elem stack (int (length stack) - 1)"

definition topi :: "('n, 'p) stack \<Rightarrow> int \<Rightarrow> ('n, 'p) jsval" where
  "topi stack i = elem stack (int (length stack) - 1 - i)"

definition depth :: "('n, 'p) stack \<Rightarrow> nat" where
  "depth stack = length stack"

subsection \<open>Primitives and the loop (lines 85-113, 133-135)\<close>

text \<open>\<open>prim.v(stack)\<close>: a \<open>TypeError\<close> when the payload is not a function.\<close>

definition apply_prim :: "('n, 'p) host \<Rightarrow> ('n, 'p) value \<Rightarrow> ('n, 'p) env \<Rightarrow> ('n, 'p) stack
    \<Rightarrow> (('n, 'p) env \<times> ('n, 'p) stack) completion" where
  "apply_prim h p env stack =
     (case v p of
        PFun f \<Rightarrow> h_call h f env stack
      | _ \<Rightarrow> Abrupt TypeError (env, stack))"

text \<open>
  The body of the loop at \<open>pc\<close> (lines 90-110). \<open>program[pc]\<close> is \<open>undefined\<close> outside
  the array, and so is the result of a failed lookup; \<open>instr.t\<close> then throws.
\<close>

definition body :: "('n, 'p) host \<Rightarrow> ('n, 'p) env \<Rightarrow> ('n, 'p) program \<Rightarrow> int \<Rightarrow> ('n, 'p) stack
    \<Rightarrow> (('n, 'p) env \<times> ('n, 'p) stack) completion" where
  "body h env program pc stack =
     (if pc < 0 \<or> int (length program) \<le> pc then Abrupt TypeError (env, stack)
      else
        let instr = program ! nat pc;
            instr = (if t instr = ''word'' then lookup (h_ops h) env instr else Obj instr)
        in case instr of
             Undefined \<Rightarrow> Abrupt TypeError (env, stack)
           | Obj i \<Rightarrow>
               if t i = ''prim'' then apply_prim h i env stack
               else Normal (env, push stack (Obj i)))"

text \<open>The four variables of \<open>run\<close>, as they stand when it returns or throws.\<close>

record ('n, 'p) machine =
  m_env :: "('n, 'p) env"
  m_program :: "('n, 'p) program"
  m_pc :: int
  m_stack :: "('n, 'p) stack"

function run_loop :: "('n, 'p) host \<Rightarrow> ('n, 'p) env \<Rightarrow> ('n, 'p) program \<Rightarrow> int \<Rightarrow> ('n, 'p) stack
    \<Rightarrow> ('n, 'p) machine completion" where
  "run_loop h env program pc stack =
     (if pc < int (length program) then
        (case body h env program pc stack of
           Normal (env', stack') \<Rightarrow> run_loop h env' program (pc + 1) stack'
         | Abrupt x (env', stack') \<Rightarrow>
             Abrupt x \<lparr>m_env = env', m_program = program, m_pc = pc, m_stack = stack'\<rparr>)
      else Normal \<lparr>m_env = env, m_program = program, m_pc = pc, m_stack = stack\<rparr>)"
  by pat_completeness auto
termination
  by (relation "measure (\<lambda>(h, env, program, pc, stack). nat (int (length program) - pc))") auto

declare run_loop.simps [simp del]

text \<open>What the caller of \<open>run\<close> gets: the stack, or the exception.\<close>

definition run :: "('n, 'p) host \<Rightarrow> ('n, 'p) env \<Rightarrow> ('n, 'p) program \<Rightarrow> int \<Rightarrow> ('n, 'p) stack
    \<Rightarrow> exn + ('n, 'p) stack" where
  "run h env program pc stack =
     (case run_loop h env program pc stack of
        Normal m \<Rightarrow> Inr (m_stack m)
      | Abrupt x m \<Rightarrow> Inl x)"


subsection \<open>Standard library (lines 206-261)\<close>

text \<open>The closures created by \<open>load_stdlib\<close> and by the call of \<open>stddefs\<close>.\<close>

datatype stdfn = Add | Sub | Mul | Div | Dup | Sqrt

text \<open>
  \<open>let y = pop(stack), x = pop(stack); return push(stack, number(x.v OP y.v))\<close>:
  both pops happen before \<open>x.v\<close> and \<open>y.v\<close> are read.
\<close>

definition binary_prim :: "(('n, 'p) payload \<Rightarrow> ('n, 'p) payload \<Rightarrow> ('n, 'p) payload)
    \<Rightarrow> ('n, 'p) env \<Rightarrow> ('n, 'p) stack \<Rightarrow> (('n, 'p) env \<times> ('n, 'p) stack) completion" where
  "binary_prim oper env stack =
     (let (y, stack) = pop stack;
          (x, stack) = pop stack
      in case x of
           Undefined \<Rightarrow> Abrupt TypeError (env, stack)
         | Obj xo \<Rightarrow>
             (case y of
                Undefined \<Rightarrow> Abrupt TypeError (env, stack)
              | Obj yo \<Rightarrow> Normal (env, push stack (Obj (number (oper (v xo) (v yo)))))))"

definition dup_prim :: "('n, 'p) env \<Rightarrow> ('n, 'p) stack \<Rightarrow> (('n, 'p) env \<times> ('n, 'p) stack) completion" where
  "dup_prim env stack = Normal (env, push stack (topitem stack))"

definition sqrt_prim :: "('n, 'p) ops \<Rightarrow> ('n, 'p) env \<Rightarrow> ('n, 'p) stack
    \<Rightarrow> (('n, 'p) env \<times> ('n, 'p) stack) completion" where
  "sqrt_prim ops env stack =
     (let (x, stack) = pop stack
      in case x of
           Undefined \<Rightarrow> Abrupt TypeError (env, stack)
         | Obj xo \<Rightarrow> Normal (env, push stack (Obj (number (Math_sqrt ops (v xo))))))"

fun stdlib_call :: "('n, stdfn) ops \<Rightarrow> stdfn \<Rightarrow> ('n, stdfn) env \<Rightarrow> ('n, stdfn) stack
    \<Rightarrow> (('n, stdfn) env \<times> ('n, stdfn) stack) completion" where
  "stdlib_call ops Add = binary_prim (js_plus ops)"
| "stdlib_call ops Sub = binary_prim (js_minus ops)"
| "stdlib_call ops Mul = binary_prim (js_times ops)"
| "stdlib_call ops Div = binary_prim (js_divide ops)"
| "stdlib_call ops Dup = dup_prim"
| "stdlib_call ops Sqrt = sqrt_prim ops"

definition load_stdlib :: "('n, stdfn) env \<Rightarrow> ('n, stdfn) env" where
  "load_stdlib env =
     (let env = define_env env ''+'' (prim (PFun Add));
          env = define_env env ''-'' (prim (PFun Sub));
          env = define_env env ''*'' (prim (PFun Mul));
          env = define_env env ''/'' (prim (PFun Div))
      in env)"

text \<open>
  \<open>stddefs\<close> wraps the loader: the new loader runs the old one, then \<open>new_defns\<close>.
  (\<open>|| env\<close> only matters for a \<open>new_defns\<close> that returns nothing.)
\<close>

definition stddefs :: "(('n, 'p) env \<Rightarrow> ('n, 'p) env) \<Rightarrow> (('n, 'p) env \<Rightarrow> ('n, 'p) env)
    \<Rightarrow> (('n, 'p) env \<Rightarrow> ('n, 'p) env)" where
  "stddefs new_defns load_first = (\<lambda>env. new_defns (load_first env))"

definition sqrt_defns :: "('n, stdfn) env \<Rightarrow> ('n, stdfn) env" where
  "sqrt_defns env =
     (let env = define_env env ''dup'' (prim (PFun Dup));
          env = define_env env ''sqrt'' (prim (PFun Sqrt))
      in env)"

text \<open>\<open>load_stdlib\<close> as it is bound once the file has been loaded.\<close>

definition load_stdlib_ext :: "('n, stdfn) env \<Rightarrow> ('n, stdfn) env" where
  "load_stdlib_ext = stddefs sqrt_defns load_stdlib"

definition test_env :: "('n, stdfn) env" where
  "test_env = load_stdlib_ext mk_env"

text \<open>
  A host for running examples: exact arithmetic on the reals, which agrees with the
  doubles wherever the double operation is exact, the coercions as given, and the
  closures of the standard library as its functions.
\<close>

definition ideal_ops :: "((real, stdfn) payload \<Rightarrow> real) \<Rightarrow> ((real, stdfn) payload \<Rightarrow> string)
    \<Rightarrow> (real, stdfn) ops" where
  "ideal_ops cn cs =
     \<lparr>o_add = (+), o_sub = (-), o_mul = (*), o_div = (/), o_sqrt = sqrt,
      o_to_number = cn, o_to_string = cs\<rparr>"

definition ideal_host :: "((real, stdfn) payload \<Rightarrow> real) \<Rightarrow> ((real, stdfn) payload \<Rightarrow> string)
    \<Rightarrow> (real, stdfn) host" where
  "ideal_host cn cs = \<lparr>h_ops = ideal_ops cn cs, h_call = stdlib_call (ideal_ops cn cs)\<rparr>"

text \<open>
  The instance used in the closed examples below. None of them applies a coercion, so
  the two coercions are constant functions.
\<close>

definition example_ops :: "(real, stdfn) ops" where
  "example_ops = ideal_ops (\<lambda>a. 0) (\<lambda>a. [])"

definition example_host :: "(real, stdfn) host" where
  "example_host = ideal_host (\<lambda>a. 0) (\<lambda>a. [])"

text \<open>\<open>tests.smoke\<close> (lines 169-181).\<close>

definition tests_smoke :: "exn + (real, stdfn) stack" where
  "tests_smoke =
     (let env = load_stdlib_ext mk_env;
          program = [number (PNum 1), number (PNum 2), word (PStr ''+'')]
      in run example_host env program 0 [])"

subsection \<open>Notions used to state the properties\<close>




section \<open>Properties\<close>

subsection \<open>The loop, one iteration at a time\<close>

lemma run_loop_done:
  "\<not> pc < int (length program) \<Longrightarrow>
   run_loop h env program pc stack
     = Normal \<lparr>m_env = env, m_program = program, m_pc = pc, m_stack = stack\<rparr>"
  by (simp add: run_loop.simps)

lemma run_loop_Normal:
  "pc < int (length program) \<Longrightarrow> body h env program pc stack = Normal (env', stack') \<Longrightarrow>
   run_loop h env program pc stack = run_loop h env' program (pc + 1) stack'"
  by (subst run_loop.simps) simp






subsection \<open>Failures\<close>




subsection \<open>Words are resolved once\<close>

text \<open>
  C2. A word instruction is looked up once. When the value found is itself a word, the
  body pushes that word as it is, whatever the environment binds it to; so with \<open>a\<close>
  bound to the word \<open>b\<close>, running the one-instruction program of the word \<open>a\<close> pushes
  the word \<open>b\<close>.
\<close>

theorem word_resolved_once:
  "(0 \<le> pc \<and> pc < int (length program) \<and> t (program ! nat pc) = ''word''
      \<and> lookup (h_ops h) env (program ! nat pc) = Obj x \<and> t x = ''word''
     \<longrightarrow> body h env program pc stack = Normal (env, push stack (Obj x)))
   \<and> (env a = Some (word (PStr b))
     \<longrightarrow> run h env [word (PStr a)] 0 stack = Inr (stack @ [Obj (word (PStr b))]))"
  by (simp add: body_def run_def run_loop_done run_loop_Normal word_def lookup_def ToString_def
      push_def)

theorem word_resolved_once_witness:
  "body example_host (define_env (define_env mk_env ''b'' (number (PNum 7))) ''a'' (word (PStr ''b'')))
     [word (PStr ''a'')] 0 []
     = Normal (define_env (define_env mk_env ''b'' (number (PNum 7))) ''a'' (word (PStr ''b'')),
         [Obj (word (PStr ''b''))])
   \<and> run example_host (define_env (define_env mk_env ''b'' (number (PNum 7))) ''a'' (word (PStr ''b'')))
     [word (PStr ''a'')] 0 [] = Inr [Obj (word (PStr ''b''))]"
  using word_resolved_once[of 0 "[word (PStr ''a'')]" example_host
      "define_env (define_env mk_env ''b'' (number (PNum 7))) ''a'' (word (PStr ''b''))"
      "word (PStr ''b'')" "[]" "''a''" "''b''"]
  by (simp add: define_env_def lookup_def ToString_def word_def push_def)

subsection \<open>Stack operations\<close>

lemma topi_eq:
  "topi stack i = (if 0 \<le> i \<and> i < int (length stack) then rev stack ! nat i else Undefined)"
proof (cases "0 \<le> i \<and> i < int (length stack)")
  case True
  then have idx: "nat (int (length stack) - 1 - i) = length stack - Suc (nat i)"
    by linarith
  have "nat i < length stack" using True by linarith
  then have "rev stack ! nat i = stack ! (length stack - Suc (nat i))"
    by (rule rev_nth)
  then show ?thesis using True idx by (simp add: topi_def elem_def)
next
  case False
  then have "topi stack i = Undefined"
    unfolding topi_def elem_def by auto
  then show ?thesis using False by auto
qed

theorem pop_empty_is_undefined:
  "pop ([] :: (real, stdfn) stack) = (Undefined, [])
   \<and> topitem ([] :: (real, stdfn) stack) = Undefined
   \<and> topi [Obj (number (PNum 1)) :: (real, stdfn) jsval] 1 = Undefined"
  by (simp add: pop_def topitem_def topi_def elem_def)

text \<open>
  C3, as the code has it. \<open>pop\<close> on a stack that is not empty removes the top value and
  returns it. On the empty stack \<open>pop\<close> returns \<open>undefined\<close> and the stack stays empty;
  \<open>topitem\<close> returns \<open>undefined\<close> there too. \<open>topi(stack, i)\<close> is the value \<open>i\<close> places
  below the top when \<open>0 \<le> i < depth\<close>, and \<open>undefined\<close> for every other \<open>i\<close>. None of
  them fails.
\<close>

theorem pop_top_peek:
  "pop (stack @ [x]) = (x, stack)
   \<and> pop [] = (Undefined, [])
   \<and> topitem (stack @ [x]) = x
   \<and> topitem [] = Undefined
   \<and> topi stack i = (if 0 \<le> i \<and> i < int (length stack) then rev stack ! nat i else Undefined)"
  using topi_eq[of stack i] by (simp add: pop_def topitem_def elem_def)

text \<open>
  C7. \<open>push\<close> followed by \<open>pop\<close> gives back the value pushed and the stack as it was:
  the same contents, hence the same depth.
\<close>

theorem push_then_pop:
  "pop (push stack item) = (item, stack)
   \<and> fst (pop (push stack item)) = item
   \<and> snd (pop (push stack item)) = stack
   \<and> depth (snd (pop (push stack item))) = depth stack"
  by (simp add: pop_def push_def)

subsection \<open>Environment operations\<close>




text \<open>The example with \<open>x\<close> defined as the number 42.\<close>

lemma define_x_42:
  "lookup example_ops (define_env env ''x'' (number (PNum 42))) (word (PStr ''x''))
     = Obj (number (PNum 42))"
  by (simp add: lookup_def word_def ToString_def define_env_def)

subsection \<open>Standard library\<close>

text \<open>
  C10. On a stack that ends with the number \<open>x\<close> and, on top of it, the number \<open>y\<close>, the
  primitive of \<open>-\<close> replaces the two by the number \<open>x - y\<close> and the primitive of \<open>/\<close>
  by the number \<open>x / y\<close>, in the host's arithmetic: the value popped second is the left
  operand. The rest of the stack and the environment stay as they are.
\<close>

theorem sub_div_operand_order:
  "stdlib_call ops Sub env (rest @ [Obj (number (PNum x)), Obj (number (PNum y))])
     = Normal (env, rest @ [Obj (number (PNum (o_sub ops x y)))])
   \<and> stdlib_call ops Div env (rest @ [Obj (number (PNum x)), Obj (number (PNum y))])
     = Normal (env, rest @ [Obj (number (PNum (o_div ops x y)))])"
  by (simp add: binary_prim_def pop_def push_def number_def js_minus_def js_divide_def ToNumber_def
      butlast_append)

text \<open>
  C5. With \<open>+\<close> bound to the addition primitive of the standard library, the program of
  the number 1, the number 2 and the word \<open>+\<close>, run from \<open>pc = 0\<close> on the empty stack,
  returns the stack that holds the number 3 and nothing else.
\<close>

theorem one_plus_two:
  "env ''+'' = Some (prim (PFun Add)) \<Longrightarrow>
   run (ideal_host cn cs) env [number (PNum 1), number (PNum 2), word (PStr ''+'')] 0 []
     = Inr [Obj (number (PNum 3))]"
  by (simp add: run_def run_loop_done run_loop_Normal body_def number_def word_def prim_def
      lookup_def ToString_def apply_prim_def ideal_host_def ideal_ops_def binary_prim_def pop_def
      push_def js_plus_def Let_def)

theorem one_plus_two_witness:
  "test_env ''+'' = Some (prim (PFun Add)) \<and> tests_smoke = Inr [Obj (number (PNum 3))]"
  using one_plus_two[of test_env "\<lambda>a. 0" "\<lambda>a. []"]
  by (simp add: tests_smoke_def example_host_def test_env_def load_stdlib_ext_def stddefs_def
      sqrt_defns_def load_stdlib_def define_env_def Let_def)

subsection \<open>Termination\<close>





subsection \<open>What run leaves alone\<close>





end
